theory Spec2Isabelle
  imports Main "HOL-Library.Word" "HOL-Library.Monad_Syntax" "HOL-Library.AList"
begin

section \<open>Bytes, slices and little-endian integers\<close>

text \<open>
  A Go byte slice is modelled by its contents, a list of 8-bit words; the nil slice is the
  empty list, and the capacity of a slice is taken to be its length. Every operation of the
  source that can panic (an index or slice bound out of range, a failed assertion) returns
  \<open>None\<close> in the model; \<open>Some\<close> is a normal return.
\<close>

type_synonym byte = "8 word"
type_synonym bytes = "byte list"
type_synonym u16 = "16 word"
type_synonym u64 = "64 word"

definition BTREE_PAGE_SIZE :: nat where
  "BTREE_PAGE_SIZE = 4096"

definition BTREE_PAGE_MAX_KEY_SIZE :: nat where
  "BTREE_PAGE_MAX_KEY_SIZE = 1000"

definition BTREE_PAGE_MAX_VALUE_SIZE :: nat where
  "BTREE_PAGE_MAX_VALUE_SIZE = 3000"

definition HEADER :: u16 where
  "HEADER = 4"

definition BNODE_NODE :: u16 where
  "BNODE_NODE = 1"

definition BNODE_LEAF :: u16 where
  "BNODE_LEAF = 2"

definition BNODE_FREE_LIST :: u16 where
  "BNODE_FREE_LIST = 3"

definition FREE_LIST_HEADER :: nat where
  "FREE_LIST_HEADER = 4 + 8 + 8"

definition FREE_LIST_CAP :: nat where
  "FREE_LIST_CAP = (BTREE_PAGE_SIZE - FREE_LIST_HEADER) div 8"

text \<open>\<open>make([]byte, n)\<close>: a zeroed buffer.\<close>

definition make_bytes :: "nat \<Rightarrow> bytes" where
  "make_bytes n = replicate n 0"

text \<open>
  Modelled from the spec: the helper \<open>assert(cond, msg)\<close> is not among the sources. The
  specification treats a violated invariant as an unrecoverable error on which the
  implementation aborts, so \<open>assert\<close> panics when the condition is false.
\<close>

definition assert :: "bool \<Rightarrow> unit option" where
  "assert c = (if c then Some () else None)"

text \<open>\<open>d[p:]\<close> panics when \<open>p\<close> exceeds the length.\<close>

definition slice_from :: "bytes \<Rightarrow> nat \<Rightarrow> bytes option" where
  "slice_from d p = (if p \<le> length d then Some (drop p d) else None)"

text \<open>
  \<open>d[:n]\<close> panics when \<open>n\<close> exceeds the capacity, which the model takes to be the
  length. That is exact for a buffer from \<open>make\<close>. A page that \<open>pageGetMapped\<close> returns
  is \<open>chunk[off:off+4096]\<close>, whose capacity reaches to the end of the chunk: there Go reads
  on into the next page where the model gives \<open>None\<close>. No statement below reads past the
  end of a page of the mapping.
\<close>

definition slice_to :: "bytes \<Rightarrow> nat \<Rightarrow> bytes option" where
  "slice_to d n = (if n \<le> length d then Some (take n d) else None)"

text \<open>\<open>d[a:b]\<close>.\<close>

definition slice :: "bytes \<Rightarrow> nat \<Rightarrow> nat \<Rightarrow> bytes option" where
  "slice d a b = (if a \<le> b \<and> b \<le> length d then Some (take (b - a) (drop a d)) else None)"

text \<open>The value of a little-endian byte string.\<close>

fun le_nat :: "bytes \<Rightarrow> nat" where
  "le_nat [] = 0"
| "le_nat (b # bs) = unat b + 256 * le_nat bs"

text \<open>\<open>binary.LittleEndian.Uint16(b)\<close> and \<open>Uint64(b)\<close> panic on a short slice.\<close>

definition Uint16 :: "bytes \<Rightarrow> u16 option" where
  "Uint16 b = (if 2 \<le> length b then Some (of_nat (le_nat (take 2 b))) else None)"

definition Uint64 :: "bytes \<Rightarrow> u64 option" where
  "Uint64 b = (if 8 \<le> length b then Some (of_nat (le_nat (take 8 b))) else None)"

definition bytes_u16 :: "u16 \<Rightarrow> bytes" where
  "bytes_u16 v = [of_nat (unat v), of_nat (unat v div 256)]"

definition bytes_u64 :: "u64 \<Rightarrow> bytes" where
  "bytes_u64 v =
     [of_nat (unat v), of_nat (unat v div 256), of_nat (unat v div 65536),
      of_nat (unat v div 16777216), of_nat (unat v div 4294967296),
      of_nat (unat v div 1099511627776), of_nat (unat v div 281474976710656),
      of_nat (unat v div 72057594037927936)]"

text \<open>
  Overwriting \<open>bs\<close> inside the buffer \<open>d\<close> at position \<open>p\<close>; the write panics unless it
  fits. \<open>PutUint16(d[p:], v)\<close> and \<open>PutUint64(d[p:], v)\<close> are such writes.
\<close>

definition put_at :: "bytes \<Rightarrow> nat \<Rightarrow> bytes \<Rightarrow> bytes option" where
  "put_at d p bs =
     (if p + length bs \<le> length d then Some (take p d @ bs @ drop (p + length bs) d)
      else None)"

definition PutUint16 :: "bytes \<Rightarrow> nat \<Rightarrow> u16 \<Rightarrow> bytes option" where
  "PutUint16 d p v = put_at d p (bytes_u16 v)"

definition PutUint64 :: "bytes \<Rightarrow> nat \<Rightarrow> u64 \<Rightarrow> bytes option" where
  "PutUint64 d p v = put_at d p (bytes_u64 v)"

text \<open>
  \<open>copy(d[p:], src)\<close> panics when \<open>p\<close> exceeds the length of \<open>d\<close>, and otherwise copies
  as many bytes as fit, silently dropping the rest.
\<close>

definition copy_at :: "bytes \<Rightarrow> nat \<Rightarrow> bytes \<Rightarrow> bytes option" where
  "copy_at d p src =
     (if p \<le> length d
      then (let n = min (length d - p) (length src)
            in Some (take p d @ take n src @ drop (p + n) d))
      else None)"

text \<open>\<open>bytes.Compare\<close>: lexicographic order on unsigned bytes, as -1, 0 or 1.\<close>

fun bytes_compare :: "bytes \<Rightarrow> bytes \<Rightarrow> int" where
  "bytes_compare [] [] = 0"
| "bytes_compare [] (y # ys) = - 1"
| "bytes_compare (x # xs) [] = 1"
| "bytes_compare (x # xs) (y # ys) =
     (if x < y then - 1 else if y < x then 1 else bytes_compare xs ys)"

section \<open>The node codec\<close>

text \<open>
  A \<open>BNode\<close> is its \<open>data\<close> slice:
  \<open>| type:u16 | nkeys:u16 | ptrs: nkeys*u64 | offsets: nkeys*u16 | kv-area |\<close>.
  Positions are computed in \<open>uint16\<close>, as in the source, and wrap around.
\<close>

type_synonym BNode = bytes

definition btype :: "BNode \<Rightarrow> u16 option" where
  "btype node = Uint16 node"

definition nkeys :: "BNode \<Rightarrow> u16 option" where
  "nkeys node = do { b \<leftarrow> slice node 2 4; Uint16 b }"

definition setHeader :: "BNode \<Rightarrow> u16 \<Rightarrow> u16 \<Rightarrow> BNode option" where
  "setHeader node t n = do { d \<leftarrow> PutUint16 node 0 t; PutUint16 d 2 n }"

definition getPtr :: "BNode \<Rightarrow> u16 \<Rightarrow> u64 option" where
  "getPtr node idx =
     (let pos = HEADER + 8 * idx in do { b \<leftarrow> slice_from node (unat pos); Uint64 b })"

definition setPtr :: "BNode \<Rightarrow> u16 \<Rightarrow> u64 \<Rightarrow> BNode option" where
  "setPtr node idx v = (let pos = HEADER + 8 * idx in PutUint64 node (unat pos) v)"

definition offsetPos :: "BNode \<Rightarrow> u16 \<Rightarrow> u16 option" where
  "offsetPos node idx = do { n \<leftarrow> nkeys node; Some (HEADER + 8 * n + 2 * (idx - 1)) }"

definition getOffset :: "BNode \<Rightarrow> u16 \<Rightarrow> u16 option" where
  "getOffset node idx =
     (if idx = 0 then Some 0
      else do { p \<leftarrow> offsetPos node idx; b \<leftarrow> slice_from node (unat p); Uint16 b })"

definition setOffset :: "BNode \<Rightarrow> u16 \<Rightarrow> u16 \<Rightarrow> BNode option" where
  "setOffset node idx off = do { p \<leftarrow> offsetPos node idx; PutUint16 node (unat p) off }"

definition kvPos :: "BNode \<Rightarrow> u16 \<Rightarrow> u16 option" where
  "kvPos node idx =
     do { n \<leftarrow> nkeys node; off \<leftarrow> getOffset node idx; Some (HEADER + 8 * n + 2 * n + off) }"

definition getKey :: "BNode \<Rightarrow> u16 \<Rightarrow> bytes option" where
  "getKey node idx =
     do { pos \<leftarrow> kvPos node idx;
          b \<leftarrow> slice_from node (unat pos);
          klen \<leftarrow> Uint16 b;
          r \<leftarrow> slice_from node (unat (pos + 4));
          slice_to r (unat klen) }"

definition getVal :: "BNode \<Rightarrow> u16 \<Rightarrow> bytes option" where
  "getVal node idx =
     do { pos \<leftarrow> kvPos node idx;
          b0 \<leftarrow> slice_from node (unat (pos + 0));
          klen \<leftarrow> Uint16 b0;
          b2 \<leftarrow> slice_from node (unat (pos + 2));
          vlen \<leftarrow> Uint16 b2;
          r \<leftarrow> slice_from node (unat (pos + 4 + klen));
          slice_to r (unat vlen) }"

definition nbytes :: "BNode \<Rightarrow> u16 option" where
  "nbytes node = do { n \<leftarrow> nkeys node; kvPos node n }"

section \<open>Node operations\<close>

text \<open>
  \<open>nodeLookupLE\<close>: the loop \<open>for i := 1; i < nkeys; i++\<close> visits the indices
  \<open>1 .. nkeys - 1\<close> in order and stops at the first key that is not below the target.
\<close>

fun lookup_loop :: "BNode \<Rightarrow> bytes \<Rightarrow> u16 \<Rightarrow> nat list \<Rightarrow> u16 option" where
  "lookup_loop node key found [] = Some found"
| "lookup_loop node key found (i # rest) =
     do { k \<leftarrow> getKey node (of_nat i);
          let cmp = bytes_compare k key;
              found' = (if cmp \<le> 0 then of_nat i else found)
          in if cmp \<ge> 0 then Some found' else lookup_loop node key found' rest }"

definition nodeLookupLE :: "BNode \<Rightarrow> bytes \<Rightarrow> u16 option" where
  "nodeLookupLE node key = do { n \<leftarrow> nkeys node; lookup_loop node key 0 [1..<unat n] }"

text \<open>
  \<open>nodeAppendRange\<close>. The pointer loop runs for \<open>i = 0 .. n - 1\<close>. The offset loop
  \<open>for i := 1; i <= n; i++\<close> runs for \<open>i = 1 .. n\<close>; for \<open>n = 65535\<close> its condition
  never fails in \<open>uint16\<close>, so it has no normal exit.
\<close>

definition nodeAppendRange :: "BNode \<Rightarrow> BNode \<Rightarrow> u16 \<Rightarrow> u16 \<Rightarrow> u16 \<Rightarrow> BNode option" where
  "nodeAppendRange new old dstNew srcOld n =
     (if n = 0 then Some new
      else do {
        new1 \<leftarrow> fold (\<lambda>i acc. do { nw \<leftarrow> acc;
                                   p \<leftarrow> getPtr old (srcOld + of_nat i);
                                   setPtr nw (dstNew + of_nat i) p })
                     [0..<unat n] (Some new);
        dstBegin \<leftarrow> getOffset new1 dstNew;
        srcBegin \<leftarrow> getOffset old srcOld;
        new2 \<leftarrow> (if n = - 1 then None
                  else fold (\<lambda>i acc. do { nw \<leftarrow> acc;
                                          off \<leftarrow> getOffset old (srcOld + of_nat i);
                                          setOffset nw (dstNew + of_nat i)
                                            (dstBegin + off - srcBegin) })
                         [1..<Suc (unat n)] (Some new1));
        begin \<leftarrow> kvPos old srcOld;
        end \<leftarrow> kvPos old (srcOld + n);
        p \<leftarrow> kvPos new2 dstNew;
        src \<leftarrow> slice old (unat begin) (unat end);
        copy_at new2 (unat p) src })"

definition nodeAppendKV :: "BNode \<Rightarrow> u16 \<Rightarrow> u64 \<Rightarrow> bytes \<Rightarrow> bytes \<Rightarrow> BNode option" where
  "nodeAppendKV new idx ptr key val =
     do { n1 \<leftarrow> setPtr new idx ptr;
          pos \<leftarrow> kvPos n1 idx;
          n2 \<leftarrow> PutUint16 n1 (unat (pos + 0)) (of_nat (length key));
          n3 \<leftarrow> PutUint16 n2 (unat (pos + 2)) (of_nat (length val));
          n4 \<leftarrow> copy_at n3 (unat (pos + 4)) key;
          n5 \<leftarrow> copy_at n4 (unat (pos + 4 + of_nat (length key))) val;
          off \<leftarrow> getOffset n5 idx;
          setOffset n5 (idx + 1) (off + 4 + of_nat (length key + length val)) }"

definition leafInsert :: "BNode \<Rightarrow> BNode \<Rightarrow> u16 \<Rightarrow> bytes \<Rightarrow> bytes \<Rightarrow> BNode option" where
  "leafInsert new old idx key val =
     do { n \<leftarrow> nkeys old;
          n1 \<leftarrow> setHeader new BNODE_LEAF (n + 1);
          n2 \<leftarrow> nodeAppendRange n1 old 0 0 idx;
          n3 \<leftarrow> nodeAppendKV n2 idx 0 key val;
          nodeAppendRange n3 old (idx + 1) idx (n - idx) }"

definition leafUpdate :: "BNode \<Rightarrow> BNode \<Rightarrow> u16 \<Rightarrow> bytes \<Rightarrow> bytes \<Rightarrow> BNode option" where
  "leafUpdate new old idx key val =
     do { n \<leftarrow> nkeys old;
          n1 \<leftarrow> setHeader new BNODE_LEAF n;
          n2 \<leftarrow> nodeAppendRange n1 old 0 0 idx;
          n3 \<leftarrow> nodeAppendKV n2 idx 0 key val;
          nodeAppendRange n3 old (idx + 1) (idx + 1) (n - idx - 1) }"

definition leafDelete :: "BNode \<Rightarrow> BNode \<Rightarrow> u16 \<Rightarrow> BNode option" where
  "leafDelete new old idx =
     do { n \<leftarrow> nkeys old;
          n1 \<leftarrow> setHeader new BNODE_LEAF (n - 1);
          n2 \<leftarrow> nodeAppendRange n1 old 0 0 idx;
          nodeAppendRange n2 old idx (idx + 1) (n - idx - 1) }"

text \<open>
  The loop of \<open>nodeSplit2\<close>, \<open>for ; rightCount <= nkeys; rightCount++\<close>, over the values
  \<open>rightCount\<close> takes; \<open>fall\<close> is the result when the loop ends by its condition.
\<close>

fun split_loop :: "BNode \<Rightarrow> u16 \<Rightarrow> u16 \<Rightarrow> u16 option \<Rightarrow> nat list \<Rightarrow> u16 option" where
  "split_loop old n nb fall [] = fall"
| "split_loop old n nb fall (c # cs) =
     (let rightCount = of_nat c in
      do { off \<leftarrow> getOffset old (n - rightCount);
           let rightBytes = HEADER + 8 * rightCount + 2 * rightCount + (nb - off)
           in if rightBytes = of_nat BTREE_PAGE_SIZE then Some rightCount
              else if rightBytes > of_nat BTREE_PAGE_SIZE then Some (rightCount - 1)
              else split_loop old n nb fall cs })"

text \<open>
  For \<open>nkeys < 65535\<close> the counter runs from 1 to \<open>nkeys\<close> and leaves the loop as
  \<open>nkeys + 1\<close>. For \<open>nkeys = 65535\<close> it wraps to 0 after 65535 and, when the pass at 0
  does not break either, repeats the same passes for ever.
\<close>

definition nodeSplit2 :: "BNode \<Rightarrow> BNode \<Rightarrow> BNode \<Rightarrow> (BNode \<times> BNode) option" where
  "nodeSplit2 left right old =
     do { n \<leftarrow> nkeys old;
          nb \<leftarrow> nbytes old;
          rightCount \<leftarrow> (if n = - 1 then split_loop old n nb None ([1..<Suc (unat n)] @ [0])
                         else split_loop old n nb (Some (n + 1)) [1..<Suc (unat n)]);
          let idx = n - rightCount in
          do { t \<leftarrow> btype old;
               l1 \<leftarrow> setHeader left t idx;
               l2 \<leftarrow> nodeAppendRange l1 old 0 0 idx;
               r1 \<leftarrow> setHeader right t (n - idx);
               r2 \<leftarrow> nodeAppendRange r1 old 0 idx (n - idx);
               Some (l2, r2) } }"

text \<open>
  \<open>nodeSplit3\<close> returns the count and the array \<open>[3]BNode\<close>; an unused slot of the array
  is the zero \<open>BNode\<close>, whose data is nil.
\<close>

definition nodeSplit3 :: "BNode \<Rightarrow> (u16 \<times> BNode list) option" where
  "nodeSplit3 old =
     do { nb \<leftarrow> nbytes old;
          if nb \<le> of_nat BTREE_PAGE_SIZE
          then do { d \<leftarrow> slice_to old BTREE_PAGE_SIZE; Some (1, [d, [], []]) }
          else do {
            (left, right) \<leftarrow> nodeSplit2 (make_bytes (2 * BTREE_PAGE_SIZE)) (make_bytes BTREE_PAGE_SIZE) old;
            lb \<leftarrow> nbytes left;
            if lb \<le> of_nat BTREE_PAGE_SIZE
            then do { l \<leftarrow> slice_to left BTREE_PAGE_SIZE; Some (2, [l, right, []]) }
            else do {
              (leftleft, middle) \<leftarrow> nodeSplit2 (make_bytes BTREE_PAGE_SIZE) (make_bytes BTREE_PAGE_SIZE) left;
              Some (3, [leftleft, middle, right]) } } }"

definition nodeMerge :: "BNode \<Rightarrow> BNode \<Rightarrow> BNode \<Rightarrow> BNode option" where
  "nodeMerge new left right =
     do { lt \<leftarrow> btype left;
          ln \<leftarrow> nkeys left;
          rt \<leftarrow> btype right;
          n1 \<leftarrow> setHeader new lt (ln + rt);
          n2 \<leftarrow> nodeAppendRange n1 left 0 0 ln;
          rn \<leftarrow> nkeys right;
          nodeAppendRange n2 right ln 0 rn }"

section \<open>The free list\<close>

text \<open>
  \<open>Freelist\<close> holds the head pointer and the three callbacks \<open>get\<close>, \<open>new\<close> and \<open>use\<close>
  over a page store of type \<open>'s\<close>. The slice that \<open>get\<close> returns aliases the page store:
  \<open>flnSetTotal(fl.get(fl.head), ...)\<close> changes the stored page in place. The model returns
  copies, so the write through the alias is the explicit operation \<open>fl_put\<close>.
\<close>

record 's Freelist =
  head :: u64
  fl_get :: "'s \<Rightarrow> u64 \<Rightarrow> BNode option"
  fl_new :: "BNode \<Rightarrow> 's \<Rightarrow> (u64 \<times> 's) option"
  fl_use :: "u64 \<Rightarrow> BNode \<Rightarrow> 's \<Rightarrow> 's option"
  fl_put :: "u64 \<Rightarrow> BNode \<Rightarrow> 's \<Rightarrow> 's option"

definition flnSize :: "BNode \<Rightarrow> int option" where
  "flnSize node = do { b \<leftarrow> slice_from node 2; v \<leftarrow> Uint16 b; Some (uint v) }"

definition flnNext :: "BNode \<Rightarrow> u64 option" where
  "flnNext node = do { b \<leftarrow> slice_from node 12; Uint64 b }"

definition flnPtr :: "BNode \<Rightarrow> int \<Rightarrow> u64 option" where
  "flnPtr node idx =
     (let offset = int FREE_LIST_HEADER + idx * 8
      in if offset < 0 then None
         else do { b \<leftarrow> slice_from node (nat offset); Uint64 b })"

definition flnSetPtr :: "BNode \<Rightarrow> int \<Rightarrow> u64 \<Rightarrow> BNode option" where
  "flnSetPtr node idx ptr =
     (let offset = int FREE_LIST_HEADER + idx * 8
      in if offset < 0 then None else PutUint64 node (nat offset) ptr)"

definition flnSetHeader :: "BNode \<Rightarrow> u16 \<Rightarrow> u64 \<Rightarrow> BNode option" where
  "flnSetHeader node size' next =
     do { n1 \<leftarrow> PutUint16 node 0 BNODE_FREE_LIST;
          n2 \<leftarrow> PutUint16 n1 2 size';
          PutUint64 n2 12 next }"

text \<open>\<open>PutUint64(node.data[4:12], total)\<close>.\<close>

definition flnSetTotal :: "BNode \<Rightarrow> u64 \<Rightarrow> BNode option" where
  "flnSetTotal node tot = do { _ \<leftarrow> slice node 4 12; PutUint64 node 4 tot }"

definition Total :: "'s Freelist \<Rightarrow> 's \<Rightarrow> u64 option" where
  "Total fl s = do { node \<leftarrow> fl_get fl s (head fl);
                     b \<leftarrow> slice_from node (unat HEADER);
                     Uint64 b }"

text \<open>
  The loop of \<open>Get\<close> follows the chain; a chain that never ends (nodes of size 0 in a
  cycle) makes it run for ever, which the model reports as \<open>None\<close> like a panic.
\<close>

partial_function (option) Get_loop :: "'s Freelist \<Rightarrow> 's \<Rightarrow> BNode \<Rightarrow> int \<Rightarrow> u64 option" where
  "Get_loop fl s node topn =
     do { sz \<leftarrow> flnSize node;
          if sz \<le> topn
          then do { next \<leftarrow> flnNext node;
                    _ \<leftarrow> assert (next \<noteq> 0);
                    node' \<leftarrow> fl_get fl s next;
                    Get_loop fl s node' (topn - sz) }
          else flnPtr node (sz - topn - 1) }"

declare Get_loop.simps [code]

definition Get :: "'s Freelist \<Rightarrow> 's \<Rightarrow> int \<Rightarrow> u64 option" where
  "Get fl s topn =
     do { c \<leftarrow> (if 0 \<le> topn then do { t \<leftarrow> Total fl s; Some (of_int topn < t) }
                else Some False);
          _ \<leftarrow> assert c;
          node \<leftarrow> fl_get fl s (head fl);
          Get_loop fl s node topn }"

text \<open>
  The inner loop of phase 2,
  \<open>for remain > 0 && len(reuse)*FREE_LIST_CAP < len(freed)+remain\<close>.
\<close>

function harvest :: "BNode \<Rightarrow> int \<Rightarrow> u64 list \<Rightarrow> u64 list \<Rightarrow> (int \<times> u64 list) option" where
  "harvest node remain reuse freed =
     (if remain > 0 \<and> int (length reuse) * int FREE_LIST_CAP < int (length freed) + remain
      then do { p \<leftarrow> flnPtr node (remain - 1);
                harvest node (remain - 1) (reuse @ [p]) freed }
      else Some (remain, reuse))"
  by pat_completeness auto
termination
  by (relation "measure (\<lambda>(node, remain, reuse, freed). nat remain)") auto

text \<open>\<open>for i := 0; i < remain; i++ { freed = append(freed, flnPtr(node, i)) }\<close>.\<close>

definition move_rest :: "BNode \<Rightarrow> int \<Rightarrow> u64 list \<Rightarrow> u64 list option" where
  "move_rest node remain freed =
     fold (\<lambda>i acc. do { fr \<leftarrow> acc; p \<leftarrow> flnPtr node (int i); Some (fr @ [p]) })
          [0..<nat remain] (Some freed)"

text \<open>
  The main loop of \<open>Update\<close> over the local variables
  \<open>(fl.head, popn, freed, reuse, total)\<close>; it only reads the page store.
\<close>

partial_function (option) drain ::
  "'s Freelist \<Rightarrow> 's \<Rightarrow> u64 \<Rightarrow> int \<Rightarrow> u64 list \<Rightarrow> u64 list \<Rightarrow> u64
     \<Rightarrow> (u64 \<times> int \<times> u64 list \<times> u64 list \<times> u64) option" where
  "drain fl s h popn freed reuse tot =
     (if h \<noteq> 0 \<and> int (length reuse) * int FREE_LIST_CAP < int (length freed)
      then do { node \<leftarrow> fl_get fl s h;
                sz \<leftarrow> flnSize node;
                (popn', freed', reuse') \<leftarrow>
                   (if popn \<ge> sz then Some (popn - sz, freed @ [h], reuse)
                    else do { (remain, reuse1) \<leftarrow> harvest node (sz - popn) reuse (freed @ [h]);
                              freed1 \<leftarrow> move_rest node remain (freed @ [h]);
                              Some (0, freed1, reuse1) });
                next \<leftarrow> flnNext node;
                drain fl s next popn' freed' reuse' (tot - of_int sz) }
      else Some (h, popn, freed, reuse, tot))"

declare drain.simps [code]

text \<open>\<open>flPush\<close>: every pass takes at least one pointer from \<open>freed\<close>.\<close>

definition fill_node :: "BNode \<Rightarrow> u64 list \<Rightarrow> BNode option" where
  "fill_node node ptrs =
     fold (\<lambda>(i, ptr) acc. do { n \<leftarrow> acc; flnSetPtr n (int i) ptr })
          (zip [0..<length ptrs] ptrs) (Some node)"

function flPush :: "'s Freelist \<Rightarrow> u64 list \<Rightarrow> u64 list \<Rightarrow> 's \<Rightarrow> ('s Freelist \<times> 's) option" where
  "flPush fl freed reuse s =
     (if length freed > 0
      then (let size' = (if length freed > FREE_LIST_CAP then FREE_LIST_CAP else length freed)
            in case flnSetHeader (make_bytes BTREE_PAGE_SIZE) (of_nat size') (head fl) of
                 None \<Rightarrow> None
               | Some n1 \<Rightarrow>
                  (case fill_node n1 (take size' freed) of
                     None \<Rightarrow> None
                   | Some newNode \<Rightarrow>
                      (if length reuse > 0
                       then (case fl_use fl (hd reuse) newNode s of
                               None \<Rightarrow> None
                             | Some s' \<Rightarrow>
                                 flPush (fl\<lparr>head := hd reuse\<rparr>) (drop size' freed) (tl reuse) s')
                       else (case fl_new fl newNode s of
                               None \<Rightarrow> None
                             | Some (p, s') \<Rightarrow>
                                 flPush (fl\<lparr>head := p\<rparr>) (drop size' freed) reuse s'))))
      else do { _ \<leftarrow> assert (length reuse = 0); Some (fl, s) })"
  by pat_completeness auto
termination
  by (relation "measure (\<lambda>(fl, freed, reuse, s). length freed)")
     (auto simp: FREE_LIST_CAP_def BTREE_PAGE_SIZE_def FREE_LIST_HEADER_def)

definition Update :: "'s Freelist \<Rightarrow> int \<Rightarrow> u64 list \<Rightarrow> 's \<Rightarrow> ('s Freelist \<times> 's) option" where
  "Update fl popn freed s =
     do { c \<leftarrow> (if 0 \<le> popn then do { t \<leftarrow> Total fl s; Some (of_int popn \<le> t) }
                else Some False);
          _ \<leftarrow> assert c;
          if popn = 0 \<and> length freed = 0 then Some (fl, s)
          else do {
            tot \<leftarrow> Total fl s;
            (h, popn', freed', reuse, tot') \<leftarrow> drain fl s (head fl) popn freed [] tot;
            _ \<leftarrow> assert (int (length reuse) * int FREE_LIST_CAP \<ge> int (length freed')
                          \<or> h = 0);
            (fl', s') \<leftarrow> flPush (fl\<lparr>head := h\<rparr>) freed' reuse s;
            node \<leftarrow> fl_get fl' s' (head fl');
            node' \<leftarrow> flnSetTotal node (tot' + of_nat (length freed'));
            s'' \<leftarrow> fl_put fl' (head fl') node' s';
            Some (fl', s'') } }"

section \<open>The B+tree\<close>

text \<open>
  \<open>BTree\<close> holds the root pointer and the callbacks \<open>get\<close>, \<open>new\<close> and \<open>del\<close> over a
  page store of type \<open>'s\<close>. The empty node \<open>BNode{}\<close>, which \<open>treeDelete\<close> returns for a
  key that is not there, is the node with nil data.
\<close>

record 's BTree =
  root :: u64
  t_get :: "'s \<Rightarrow> u64 \<Rightarrow> BNode option"
  t_new :: "BNode \<Rightarrow> 's \<Rightarrow> (u64 \<times> 's) option"
  t_del :: "u64 \<Rightarrow> 's \<Rightarrow> 's option"

text \<open>
  The loop \<open>for i, node := range kids\<close> of \<open>nodeReplaceKidN\<close>, whose body is
  \<open>nodeAppendKV(new, idx+uint16(i), tree.new(node), node.getKey(0), nil)\<close>; the arguments
  are evaluated from left to right. \<open>Insert\<close> runs the same loop over its array of three
  nodes with \<open>idx = 0\<close>.
\<close>

fun kids_loop :: "'s BTree \<Rightarrow> BNode \<Rightarrow> u16 \<Rightarrow> nat \<Rightarrow> BNode list \<Rightarrow> 's \<Rightarrow> (BNode \<times> 's) option" where
  "kids_loop tree new idx i [] s = Some (new, s)"
| "kids_loop tree new idx i (node # rest) s =
     (case t_new tree node s of
        None \<Rightarrow> None
      | Some (ptr, s1) \<Rightarrow>
          (case getKey node 0 of
             None \<Rightarrow> None
           | Some k \<Rightarrow>
               (case nodeAppendKV new (idx + of_nat i) ptr k [] of
                  None \<Rightarrow> None
                | Some new1 \<Rightarrow> kids_loop tree new1 idx (Suc i) rest s1)))"

definition nodeReplaceKidN ::
  "'s BTree \<Rightarrow> BNode \<Rightarrow> BNode \<Rightarrow> u16 \<Rightarrow> BNode list \<Rightarrow> 's \<Rightarrow> (BNode \<times> 's) option" where
  "nodeReplaceKidN tree new old idx kids s =
     (let inc = (of_nat (length kids) :: u16) in
      do { n \<leftarrow> nkeys old;
           n1 \<leftarrow> setHeader new BNODE_NODE (n + inc - 1);
           n2 \<leftarrow> nodeAppendRange n1 old 0 0 idx;
           (n3, s1) \<leftarrow> kids_loop tree n2 idx 0 kids s;
           n4 \<leftarrow> nodeAppendRange n3 old (idx + inc) (idx + 1) (n - (idx + 1));
           Some (n4, s1) })"

definition nodeReplaceKid2 :: "BNode \<Rightarrow> BNode \<Rightarrow> u16 \<Rightarrow> u64 \<Rightarrow> bytes \<Rightarrow> BNode option" where
  "nodeReplaceKid2 new old idx merged key =
     do { n \<leftarrow> nkeys old;
          n1 \<leftarrow> setHeader new BNODE_NODE (n - 1);
          n2 \<leftarrow> nodeAppendRange n1 old 0 0 idx;
          n3 \<leftarrow> nodeAppendKV n2 idx merged key [];
          nodeAppendRange n3 old (idx + 1) (idx + 2) (n - (idx + 2)) }"

text \<open>
  \<open>treeInsert\<close>, with the body of \<open>nodeInsert\<close> in its internal-node case. The recursion
  follows child pointers through the page store and need not end on a store with a cycle;
  not returning is \<open>None\<close>.
\<close>

partial_function (option) treeInsert ::
  "'s BTree \<Rightarrow> BNode \<Rightarrow> bytes \<Rightarrow> bytes \<Rightarrow> 's \<Rightarrow> (BNode \<times> 's) option" where
  "treeInsert tree node key val s =
     do { idx \<leftarrow> nodeLookupLE node key;
          t \<leftarrow> btype node;
          if t = BNODE_LEAF
          then do { k \<leftarrow> getKey node idx;
                    n \<leftarrow> (if key = k
                          then leafUpdate (make_bytes (2 * BTREE_PAGE_SIZE)) node idx key val
                          else leafInsert (make_bytes (2 * BTREE_PAGE_SIZE)) node (idx + 1) key val);
                    Some (n, s) }
          else if t = BNODE_NODE
          then do { kptr \<leftarrow> getPtr node idx;
                    knode \<leftarrow> t_get tree s kptr;
                    s1 \<leftarrow> t_del tree kptr s;
                    (knode', s2) \<leftarrow> treeInsert tree knode key val s1;
                    (nsplit, splited) \<leftarrow> nodeSplit3 knode';
                    kids \<leftarrow> (if unat nsplit \<le> length splited
                              then Some (take (unat nsplit) splited) else None);
                    nodeReplaceKidN tree (make_bytes (2 * BTREE_PAGE_SIZE)) node idx kids s2 }
          else None }"

declare treeInsert.simps [code]

definition nodeInsert ::
  "'s BTree \<Rightarrow> BNode \<Rightarrow> BNode \<Rightarrow> u16 \<Rightarrow> bytes \<Rightarrow> bytes \<Rightarrow> 's \<Rightarrow> (BNode \<times> 's) option" where
  "nodeInsert tree new node idx key val s =
     do { kptr \<leftarrow> getPtr node idx;
          knode \<leftarrow> t_get tree s kptr;
          s1 \<leftarrow> t_del tree kptr s;
          (knode', s2) \<leftarrow> treeInsert tree knode key val s1;
          (nsplit, splited) \<leftarrow> nodeSplit3 knode';
          kids \<leftarrow> (if unat nsplit \<le> length splited
                    then Some (take (unat nsplit) splited) else None);
          nodeReplaceKidN tree new node idx kids s2 }"

definition Insert :: "'s BTree \<Rightarrow> bytes \<Rightarrow> bytes \<Rightarrow> 's \<Rightarrow> ('s BTree \<times> 's) option" where
  "Insert tree key val s =
     (if length key = 0 \<or> length key > BTREE_PAGE_MAX_KEY_SIZE then None
      else if length val > BTREE_PAGE_MAX_VALUE_SIZE then None
      else if root tree = 0
      then do { r0 \<leftarrow> setHeader (make_bytes BTREE_PAGE_SIZE) BNODE_LEAF 2;
                r1 \<leftarrow> nodeAppendKV r0 0 0 [] [];
                r2 \<leftarrow> nodeAppendKV r1 1 0 key val;
                (p, s1) \<leftarrow> t_new tree r2 s;
                Some (tree\<lparr>root := p\<rparr>, s1) }
      else do { node \<leftarrow> t_get tree s (root tree);
                s1 \<leftarrow> t_del tree (root tree) s;
                (node', s2) \<leftarrow> treeInsert tree node key val s1;
                (nsplit, splitted) \<leftarrow> nodeSplit3 node';
                if nsplit > 1
                then do { r0 \<leftarrow> setHeader (make_bytes BTREE_PAGE_SIZE) BNODE_NODE nsplit;
                          (r1, s3) \<leftarrow> kids_loop tree r0 0 0 splitted s2;
                          (p, s4) \<leftarrow> t_new tree r1 s3;
                          Some (tree\<lparr>root := p\<rparr>, s4) }
                else (case splitted of
                        [] \<Rightarrow> None
                      | n0 # _ \<Rightarrow> do { (p, s3) \<leftarrow> t_new tree n0 s2;
                                       Some (tree\<lparr>root := p\<rparr>, s3) }) })"

definition shouldMerge :: "'s BTree \<Rightarrow> 's \<Rightarrow> BNode \<Rightarrow> u16 \<Rightarrow> BNode \<Rightarrow> (int \<times> BNode) option" where
  "shouldMerge tree s node idx updated =
     do { ub \<leftarrow> nbytes updated;
          if ub > of_nat (BTREE_PAGE_SIZE div 4) then Some (0, [])
          else do {
            l \<leftarrow> (if idx > 0
                   then do { p \<leftarrow> getPtr node (idx - 1);
                             sibling \<leftarrow> t_get tree s p;
                             sb \<leftarrow> nbytes sibling;
                             Some (if sb + ub - HEADER \<le> of_nat BTREE_PAGE_SIZE
                                   then Some sibling else None) }
                   else Some None);
            case l of
              Some sibling \<Rightarrow> Some (- 1, sibling)
            | None \<Rightarrow>
               do { n \<leftarrow> nkeys node;
                    r \<leftarrow> (if idx + 1 < n
                           then do { p \<leftarrow> getPtr node (idx + 1);
                                     sibling \<leftarrow> t_get tree s p;
                                     sb \<leftarrow> nbytes sibling;
                                     Some (if sb + ub - HEADER \<le> of_nat BTREE_PAGE_SIZE
                                           then Some sibling else None) }
                           else Some None);
                    case r of
                      Some sibling \<Rightarrow> Some (1, sibling)
                    | None \<Rightarrow> Some (0, []) } } }"

text \<open>\<open>treeDelete\<close>, with the body of \<open>nodeDelete\<close> in its internal-node case.\<close>

partial_function (option) treeDelete ::
  "'s BTree \<Rightarrow> BNode \<Rightarrow> bytes \<Rightarrow> 's \<Rightarrow> (BNode \<times> 's) option" where
  "treeDelete tree node key s =
     do { idx \<leftarrow> nodeLookupLE node key;
          t \<leftarrow> btype node;
          if t = BNODE_LEAF
          then do { k \<leftarrow> getKey node idx;
                    if key \<noteq> k then Some ([], s)
                    else do { n \<leftarrow> leafDelete (make_bytes BTREE_PAGE_SIZE) node idx;
                              Some (n, s) } }
          else if t = BNODE_NODE
          then do { kptr \<leftarrow> getPtr node idx;
                    knode \<leftarrow> t_get tree s kptr;
                    (updated, s1) \<leftarrow> treeDelete tree knode key s;
                    if length updated = 0 then Some ([], s1)
                    else do {
                      s2 \<leftarrow> t_del tree kptr s1;
                      (mergeDir, sibling) \<leftarrow> shouldMerge tree s2 node idx updated;
                      if mergeDir < 0
                      then do { merged \<leftarrow> nodeMerge (make_bytes BTREE_PAGE_SIZE) sibling updated;
                                p \<leftarrow> getPtr node (idx - 1);
                                s3 \<leftarrow> t_del tree p s2;
                                (mp, s4) \<leftarrow> t_new tree merged s3;
                                mk \<leftarrow> getKey merged 0;
                                n \<leftarrow> nodeReplaceKid2 (make_bytes BTREE_PAGE_SIZE) node (idx - 1) mp mk;
                                Some (n, s4) }
                      else if mergeDir > 0
                      then do { merged \<leftarrow> nodeMerge (make_bytes BTREE_PAGE_SIZE) updated sibling;
                                p \<leftarrow> getPtr node (idx + 1);
                                s3 \<leftarrow> t_del tree p s2;
                                (mp, s4) \<leftarrow> t_new tree merged s3;
                                mk \<leftarrow> getKey merged 0;
                                n \<leftarrow> nodeReplaceKid2 (make_bytes BTREE_PAGE_SIZE) node idx mp mk;
                                Some (n, s4) }
                      else do { un \<leftarrow> nkeys updated;
                                if un = 0
                                then do { n \<leftarrow> setHeader (make_bytes BTREE_PAGE_SIZE) BNODE_NODE 0;
                                          Some (n, s2) }
                                else nodeReplaceKidN tree (make_bytes BTREE_PAGE_SIZE) node idx
                                       [updated] s2 } } }
          else None }"

declare treeDelete.simps [code]

definition Delete :: "'s BTree \<Rightarrow> bytes \<Rightarrow> 's \<Rightarrow> (bool \<times> 's BTree \<times> 's) option" where
  "Delete tree key s =
     (if length key = 0 \<or> length key > BTREE_PAGE_MAX_KEY_SIZE then None
      else if root tree = 0 then Some (False, tree, s)
      else do { node \<leftarrow> t_get tree s (root tree);
                (updated, s1) \<leftarrow> treeDelete tree node key s;
                if length updated = 0 then Some (False, tree, s1)
                else do {
                  s2 \<leftarrow> t_del tree (root tree) s1;
                  t \<leftarrow> btype updated;
                  one \<leftarrow> (if t = BNODE_NODE then do { n \<leftarrow> nkeys updated; Some (n = 1) }
                           else Some False);
                  if one
                  then do { p \<leftarrow> getPtr updated 0; Some (True, tree\<lparr>root := p\<rparr>, s2) }
                  else do { (p, s3) \<leftarrow> t_new tree updated s2;
                            Some (True, tree\<lparr>root := p\<rparr>, s3) } } })"

text \<open>
  Modelled from the spec: \<open>BTree.Get\<close>, which \<open>KV.Get\<close> calls, is not among the sources.
  The specification says that \<open>Get(key)\<close> returns (value, found), descending with
  \<open>nodeLookupLE\<close> to a leaf; that the empty key is found with the empty value in every
  non-empty tree; and that an empty tree holds no key.
\<close>

partial_function (option) treeGet ::
  "'s BTree \<Rightarrow> 's \<Rightarrow> BNode \<Rightarrow> bytes \<Rightarrow> (bytes \<times> bool) option" where
  "treeGet tree s node key =
     do { idx \<leftarrow> nodeLookupLE node key;
          t \<leftarrow> btype node;
          if t = BNODE_LEAF
          then do { k \<leftarrow> getKey node idx;
                    if key = k then do { v \<leftarrow> getVal node idx; Some (v, True) }
                    else Some ([], False) }
          else if t = BNODE_NODE
          then do { p \<leftarrow> getPtr node idx;
                    knode \<leftarrow> t_get tree s p;
                    treeGet tree s knode key }
          else None }"

declare treeGet.simps [code]

definition BTree_Get :: "'s BTree \<Rightarrow> 's \<Rightarrow> bytes \<Rightarrow> (bytes \<times> bool) option" where
  "BTree_Get tree s key =
     (if root tree = 0 then Some ([], False)
      else do { node \<leftarrow> t_get tree s (root tree); treeGet tree s node key })"

section \<open>The pager and the key-value store\<close>

text \<open>
  The state of \<open>KV\<close>. \<open>updates\<close> is the Go map from page numbers to page images, kept as
  an association list; a nil image (the tombstone of a deallocated page) is the empty
  list. Go visits the entries of a map in an unspecified order; the model visits them in
  the order of the list. In the runs below every commit has a single tombstone, so the
  order only decides in which order the page copies of one commit appear in \<open>trace\<close>. \<open>master\<close> is the master page as last written to offset 0 of the
  file. \<open>trace\<close> records the system calls and the page copies into the mapping, in the
  order they are issued, and \<open>io\<close> lists the outcomes of the coming system calls
  (\<open>True\<close> for success; success when the list is exhausted).
\<close>

datatype event = EvFallocate | EvMmap | EvPageWrite u64 | EvMasterWrite | EvFsync

datatype error = ErrOpen | ErrStat | ErrFileSize | ErrMmap | ErrBadSignature | ErrBadMaster
  | ErrFallocate | ErrMasterWrite | ErrFsync

record KV =
  tree_root :: u64
  free_head :: u64
  mmap_file :: int
  mmap_total :: int
  chunks :: "bytes list"
  flushed :: u64
  nfree :: int
  nappend :: int
  updates :: "(u64 \<times> bytes) list"
  master :: bytes
  trace :: "event list"
  io :: "bool list"

definition syscall :: "event \<Rightarrow> KV \<Rightarrow> bool \<times> KV" where
  "syscall ev db =
     (case io db of
        [] \<Rightarrow> (True, db\<lparr>trace := trace db @ [ev]\<rparr>)
      | ok # rest \<Rightarrow> (ok, db\<lparr>trace := trace db @ [ev], io := rest\<rparr>))"

text \<open>Go's \<open>/\<close> on \<open>int\<close> truncates towards zero.\<close>

definition quot :: "int \<Rightarrow> int \<Rightarrow> int" where
  "quot a b = sgn a * sgn b * (\<bar>a\<bar> div \<bar>b\<bar>)"

fun pageGetMapped_loop :: "bytes list \<Rightarrow> u64 \<Rightarrow> u64 \<Rightarrow> BNode option" where
  "pageGetMapped_loop [] start ptr = None"
| "pageGetMapped_loop (chunk # cs) start ptr =
     (let end = start + of_nat (length chunk) div of_nat BTREE_PAGE_SIZE in
      if ptr < end
      then (let offset = of_nat BTREE_PAGE_SIZE * (ptr - start)
            in slice chunk (unat offset) (unat (offset + of_nat BTREE_PAGE_SIZE)))
      else pageGetMapped_loop cs end ptr)"

definition pageGetMapped :: "KV \<Rightarrow> u64 \<Rightarrow> BNode option" where
  "pageGetMapped db ptr = pageGetMapped_loop (chunks db) 0 ptr"

definition pageGet :: "KV \<Rightarrow> u64 \<Rightarrow> BNode option" where
  "pageGet db ptr =
     (case map_of (updates db) ptr of
        Some page \<Rightarrow> Some page
      | None \<Rightarrow> pageGetMapped db ptr)"

text \<open>
  \<open>copy(db.pageGetMapped(ptr).data, page)\<close>: the destination is the page inside its chunk.
\<close>

fun pageCopyMapped_loop :: "bytes list \<Rightarrow> u64 \<Rightarrow> u64 \<Rightarrow> bytes \<Rightarrow> bytes list option" where
  "pageCopyMapped_loop [] start ptr page = None"
| "pageCopyMapped_loop (chunk # cs) start ptr page =
     (let end = start + of_nat (length chunk) div of_nat BTREE_PAGE_SIZE in
      if ptr < end
      then (let offset = of_nat BTREE_PAGE_SIZE * (ptr - start) in
            do { _ \<leftarrow> slice chunk (unat offset) (unat (offset + of_nat BTREE_PAGE_SIZE));
                 let n = min BTREE_PAGE_SIZE (length page) in
                 Some ((take (unat offset) chunk @ take n page @ drop (unat offset + n) chunk)
                       # cs) })
      else map_option ((#) chunk) (pageCopyMapped_loop cs end ptr page))"

definition pageUse :: "u64 \<Rightarrow> BNode \<Rightarrow> KV \<Rightarrow> KV" where
  "pageUse ptr node db = db\<lparr>updates := AList.update ptr node (updates db)\<rparr>"

definition pageDel :: "u64 \<Rightarrow> KV \<Rightarrow> KV" where
  "pageDel ptr db = db\<lparr>updates := AList.update ptr [] (updates db)\<rparr>"

definition pageAppend :: "BNode \<Rightarrow> KV \<Rightarrow> (u64 \<times> KV) option" where
  "pageAppend node db =
     do { _ \<leftarrow> assert (length node \<le> BTREE_PAGE_SIZE);
          let ptr = flushed db + of_int (nappend db) in
          Some (ptr, db\<lparr>nappend := nappend db + 1,
                         updates := AList.update ptr node (updates db)\<rparr>) }"

text \<open>
  Writing through the slice that \<open>pageGet\<close> returned: it is the image held in \<open>updates\<close>
  when there is one, and the page inside the mapping otherwise.
\<close>

definition pagePut :: "u64 \<Rightarrow> BNode \<Rightarrow> KV \<Rightarrow> KV option" where
  "pagePut ptr node db =
     (case map_of (updates db) ptr of
        Some _ \<Rightarrow> Some (db\<lparr>updates := AList.update ptr node (updates db)\<rparr>)
      | None \<Rightarrow> do { cs \<leftarrow> pageCopyMapped_loop (chunks db) 0 ptr node;
                      Some (db\<lparr>chunks := cs\<rparr>) })"

text \<open>The free list of \<open>db\<close>, with the callbacks that \<open>Open\<close> installs.\<close>

definition db_free :: "KV \<Rightarrow> KV Freelist" where
  "db_free db =
     \<lparr>head = free_head db, fl_get = pageGet, fl_new = pageAppend,
      fl_use = (\<lambda>ptr node d. Some (pageUse ptr node d)), fl_put = pagePut\<rparr>"

definition pageNew :: "BNode \<Rightarrow> KV \<Rightarrow> (u64 \<times> KV) option" where
  "pageNew node db =
     do { _ \<leftarrow> assert (length node \<le> BTREE_PAGE_SIZE);
          t \<leftarrow> Total (db_free db) db;
          if of_int (nfree db) < t
          then do { ptr \<leftarrow> Get (db_free db) db (nfree db);
                    Some (ptr, pageUse ptr node (db\<lparr>nfree := nfree db + 1\<rparr>)) }
          else pageAppend node db }"

text \<open>The tree of \<open>db\<close>, with the callbacks that \<open>Open\<close> installs.\<close>

definition db_tree :: "KV \<Rightarrow> KV BTree" where
  "db_tree db =
     \<lparr>root = tree_root db, t_get = pageGet, t_new = pageNew,
      t_del = (\<lambda>ptr d. Some (pageDel ptr d))\<rparr>"

function grow_pages :: "int \<Rightarrow> int \<Rightarrow> int" where
  "grow_pages filePages npages =
     (if filePages < npages
      then (let inc = filePages div 8 in
            grow_pages (filePages + (if inc < 1 then 1 else inc)) npages)
      else filePages)"
  by pat_completeness auto
termination
  by (relation "measure (\<lambda>(filePages, npages). nat (npages - filePages))") (auto simp: Let_def)

text \<open>\<open>fallocate\<close> makes no system call for the length 0.\<close>

definition extendFile :: "KV \<Rightarrow> int \<Rightarrow> error option \<times> KV" where
  "extendFile db npages =
     (let filePages = quot (mmap_file db) (int BTREE_PAGE_SIZE) in
      if filePages \<ge> npages then (None, db)
      else (let fileSize = grow_pages filePages npages * int BTREE_PAGE_SIZE in
            if fileSize = 0 then (None, db\<lparr>mmap_file := fileSize\<rparr>)
            else (case syscall EvFallocate db of
                    (False, db') \<Rightarrow> (Some ErrFallocate, db')
                  | (True, db') \<Rightarrow> (None, db'\<lparr>mmap_file := fileSize\<rparr>))))"

text \<open>
  The new chunk maps the file from \<open>mmap.total\<close> on, where nothing was written before:
  it reads as zeros.
\<close>

definition extendMmap :: "KV \<Rightarrow> int \<Rightarrow> error option \<times> KV" where
  "extendMmap db npages =
     (if mmap_total db \<ge> npages * int BTREE_PAGE_SIZE then (None, db)
      else (case syscall EvMmap db of
              (False, db') \<Rightarrow> (Some ErrMmap, db')
            | (True, db') \<Rightarrow>
                (None, db'\<lparr>mmap_total := mmap_total db' + mmap_total db',
                            chunks := chunks db' @ [make_bytes (nat (mmap_total db'))]\<rparr>)))"

definition DB_SIG :: bytes where
  "DB_SIG = [84, 73, 78, 89, 68, 66, 95, 83, 73, 71]"

definition materStore :: "KV \<Rightarrow> (error option \<times> KV) option" where
  "materStore db =
     do { d0 \<leftarrow> copy_at (make_bytes 40) 0 (take 16 DB_SIG);
          d1 \<leftarrow> PutUint64 d0 16 (tree_root db);
          d2 \<leftarrow> PutUint64 d1 24 (flushed db);
          d3 \<leftarrow> PutUint64 d2 32 (free_head db);
          (case syscall EvMasterWrite db of
             (False, db') \<Rightarrow> Some (Some ErrMasterWrite, db')
           | (True, db') \<Rightarrow> Some (None, db'\<lparr>master := d3\<rparr>)) }"

definition syncPages :: "KV \<Rightarrow> (error option \<times> KV) option" where
  "syncPages db =
     (let pageNewCount = (of_nat (length (filter (\<lambda>(ptr, page). page \<noteq> []) (updates db))) :: u64);
          db1 = db\<lparr>flushed := flushed db + pageNewCount, updates := []\<rparr>
      in do { (e, db2) \<leftarrow> materStore db1;
              case e of
                Some err \<Rightarrow> Some (Some err, db2)
              | None \<Rightarrow>
                 (case syscall EvFsync db2 of
                    (False, db3) \<Rightarrow> Some (Some ErrFsync, db3)
                  | (True, db3) \<Rightarrow> Some (None, db3)) })"

text \<open>The loop of \<open>writePages\<close> that copies every non-nil image into the mapping.\<close>

fun copy_pages :: "(u64 \<times> bytes) list \<Rightarrow> KV \<Rightarrow> KV option" where
  "copy_pages [] db = Some db"
| "copy_pages ((ptr, page) # rest) db =
     (if page \<noteq> []
      then (case pageCopyMapped_loop (chunks db) 0 ptr page of
              None \<Rightarrow> None
            | Some cs \<Rightarrow> copy_pages rest (db\<lparr>chunks := cs, trace := trace db @ [EvPageWrite ptr]\<rparr>))
      else copy_pages rest db)"

definition writePages :: "KV \<Rightarrow> (error option \<times> KV) option" where
  "writePages db =
     (let freed = map fst (filter (\<lambda>(ptr, page). page = []) (updates db)) in
      do { (fl, db1) \<leftarrow> Update (db_free db) (nfree db) freed db;
           let db2 = db1\<lparr>free_head := head fl\<rparr>;
               npages = sint (flushed db2) + nappend db2
           in (case extendFile db2 npages of
                 (Some err, db3) \<Rightarrow> Some (Some err, db3)
               | (None, db3) \<Rightarrow>
                  (case extendMmap db3 npages of
                     (Some err, db4) \<Rightarrow> Some (Some err, db4)
                   | (None, db4) \<Rightarrow> map_option (Pair None) (copy_pages (updates db4) db4))) })"

definition flushPages :: "KV \<Rightarrow> (error option \<times> KV) option" where
  "flushPages db =
     do { (e, db1) \<leftarrow> writePages db;
          case e of Some err \<Rightarrow> Some (Some err, db1) | None \<Rightarrow> syncPages db1 }"

definition KV_Get :: "KV \<Rightarrow> bytes \<Rightarrow> (bytes \<times> bool) option" where
  "KV_Get db key = BTree_Get (db_tree db) db key"

definition KV_Set :: "KV \<Rightarrow> bytes \<Rightarrow> bytes \<Rightarrow> (error option \<times> KV) option" where
  "KV_Set db key val =
     do { (tree, db1) \<leftarrow> Insert (db_tree db) key val db;
          flushPages (db1\<lparr>tree_root := root tree\<rparr>) }"

definition KV_Delete :: "KV \<Rightarrow> bytes \<Rightarrow> (bool \<times> error option \<times> KV) option" where
  "KV_Delete db key =
     do { (deleted, tree, db1) \<leftarrow> Delete (db_tree db) key db;
          (e, db2) \<leftarrow> flushPages (db1\<lparr>tree_root := root tree\<rparr>);
          Some (deleted, e, db2) }"

text \<open>
  \<open>Open\<close> on a file with the contents \<open>file\<close>. The initial mapping covers the file and
  reads as zeros beyond its end. The guard \<open>0 < m\<close> of the doubling loop of \<open>mmapInit\<close>
  always holds, since \<open>m\<close> starts at \<open>64 << 20\<close>.
\<close>

function mmapSize_loop :: "int \<Rightarrow> int \<Rightarrow> int" where
  "mmapSize_loop m sz = (if m < sz \<and> 0 < m then mmapSize_loop (m * 2) sz else m)"
  by pat_completeness auto
termination
  by (relation "measure (\<lambda>(m, sz). nat (sz - m))") auto

definition masterLoad :: "KV \<Rightarrow> (error option \<times> KV) option" where
  "masterLoad db =
     (if mmap_file db = 0 then Some (None, db\<lparr>flushed := 1\<rparr>)
      else (case chunks db of
              [] \<Rightarrow> None
            | data # _ \<Rightarrow>
               do { b16 \<leftarrow> slice_from data 16; root' \<leftarrow> Uint64 b16;
                    b24 \<leftarrow> slice_from data 24; used \<leftarrow> Uint64 b24;
                    b32 \<leftarrow> slice_from data 32; freeList \<leftarrow> Uint64 b32;
                    sig \<leftarrow> copy_at (make_bytes 16) 0 DB_SIG;
                    d16 \<leftarrow> slice_to data 16;
                    if sig \<noteq> d16 then Some (Some ErrBadSignature, db)
                    else (let bad0 = (\<not> (1 \<le> used \<and>
                                          used \<le> of_int (quot (mmap_file db) (int BTREE_PAGE_SIZE))));
                              bad = (bad0 \<or> \<not> (0 \<le> root' \<and> root' < used + freeList))
                          in if bad then Some (Some ErrBadMaster, db)
                             else Some (None, db\<lparr>tree_root := root', flushed := used,
                                                   free_head := freeList\<rparr>)) }))"

definition Open :: "bytes \<Rightarrow> bool list \<Rightarrow> (error + KV) option" where
  "Open file outcomes =
     (case outcomes of
        False # _ \<Rightarrow> Some (Inl ErrOpen)
      | _ \<Rightarrow>
       (case tl outcomes of
          False # _ \<Rightarrow> Some (Inl ErrStat)
        | _ \<Rightarrow>
          if int (length file) mod int BTREE_PAGE_SIZE \<noteq> 0 then Some (Inl ErrFileSize)
          else (case tl (tl outcomes) of
                  False # _ \<Rightarrow> Some (Inl ErrMmap)
                | _ \<Rightarrow>
                  (let mmapSize = mmapSize_loop 67108864 (int (length file));
                       chunk = file @ make_bytes (nat mmapSize - length file);
                       db = \<lparr>tree_root = 0, free_head = 0, mmap_file = int (length file),
                             mmap_total = int (length chunk), chunks = [chunk], flushed = 0,
                             nfree = 0, nappend = 0, updates = [], master = take 40 file,
                             trace = [], io = tl (tl (tl outcomes))\<rparr>
                   in do { (e, db1) \<leftarrow> masterLoad db;
                           case e of
                             Some err \<Rightarrow> Some (Inl err)
                           | None \<Rightarrow>
                              if free_head db1 = 0 \<and> length (updates db1) = 0
                              then do { (p, db2) \<leftarrow> pageAppend (make_bytes BTREE_PAGE_SIZE) db1;
                                        Some (Inr (pageUse p (make_bytes BTREE_PAGE_SIZE)
                                                     (db2\<lparr>free_head := p\<rparr>))) }
                              else Some (Inr db1) }))))"

section \<open>The earlier pager of \<open>kv.go\<close>\<close>

text \<open>
  \<open>kv.go\<close> holds an earlier version of the pager, without the free list: the pages of a
  commit are collected in \<open>page.temp\<close>. Only its \<open>syncPages\<close> is modelled, over the part
  of the state it uses.
\<close>

record KV0 =
  flushed0 :: u64
  temp :: "bytes list"
  trace0 :: "event list"
  io0 :: "bool list"

definition syscall0 :: "event \<Rightarrow> KV0 \<Rightarrow> bool \<times> KV0" where
  "syscall0 ev db =
     (case io0 db of
        [] \<Rightarrow> (True, db\<lparr>trace0 := trace0 db @ [ev]\<rparr>)
      | ok # rest \<Rightarrow> (ok, db\<lparr>trace0 := trace0 db @ [ev], io0 := rest\<rparr>))"

definition syncPages0 :: "KV0 \<Rightarrow> error option \<times> KV0" where
  "syncPages0 db =
     (case syscall0 EvFsync db of
        (False, db1) \<Rightarrow> (Some ErrFsync, db1)
      | (True, db1) \<Rightarrow>
         (let db2 = db1\<lparr>flushed0 := flushed0 db1 + of_nat (length (temp db1)), temp := []\<rparr>
          in case syscall0 EvMasterWrite db2 of
               (False, db3) \<Rightarrow> (Some ErrMasterWrite, db3)
             | (True, db3) \<Rightarrow>
                (case syscall0 EvFsync db3 of
                   (False, db4) \<Rightarrow> (Some ErrFsync, db4)
                 | (True, db4) \<Rightarrow> (None, db4))))"

section \<open>Concrete stores and runs\<close>

text \<open>The store that \<open>Open\<close> returns for a new, empty file.\<close>

definition db_empty :: KV where
  "db_empty =
     \<lparr>tree_root = 0, free_head = 1, mmap_file = 0, mmap_total = 67108864,
      chunks = [replicate 67108864 0], flushed = 1, nfree = 0, nappend = 1,
      updates = [(1, replicate 4096 0)], master = [], trace = [], io = []\<rparr>"

text \<open>A client that calls \<open>Set\<close> for each pair in turn and stops at the first failure.\<close>

fun run_sets :: "KV \<Rightarrow> (bytes \<times> bytes) list \<Rightarrow> KV option" where
  "run_sets db [] = Some db"
| "run_sets db ((k, v) # rest) =
     (case KV_Set db k v of
        Some (None, db') \<Rightarrow> run_sets db' rest
      | _ \<Rightarrow> None)"

text \<open>Six one-byte keys \<open>a\<close> .. \<open>f\<close> with empty values.\<close>

definition small_sets :: "(bytes \<times> bytes) list" where
  "small_sets = [([97], []), ([98], []), ([99], []), ([100], []), ([101], []), ([102], [])]"

text \<open>A key and a value of the greatest lengths that \<open>Insert\<close> accepts.\<close>

definition big_key :: bytes where
  "big_key = replicate 1000 122"

definition big_key2 :: bytes where
  "big_key2 = replicate 1000 123"

definition big_val :: bytes where
  "big_val = replicate 3000 118"

text \<open>The root leaf after \<open>Set\<close> of \<open>a\<close> .. \<open>f\<close>: seven entries in 108 bytes.\<close>

definition small_leaf :: BNode where
  "small_leaf =
     [2, 0, 7, 0] @ replicate 56 0
     @ [4, 0, 9, 0, 14, 0, 19, 0, 24, 0, 29, 0, 34, 0]
     @ [0, 0, 0, 0] @ [1, 0, 0, 0, 97] @ [1, 0, 0, 0, 98] @ [1, 0, 0, 0, 99]
     @ [1, 0, 0, 0, 100] @ [1, 0, 0, 0, 101] @ [1, 0, 0, 0, 102]
     @ replicate 3988 0"

text \<open>
  The leaf that \<open>treeInsert\<close> builds when \<open>big_key\<close> is added to \<open>small_leaf\<close>: eight
  entries in 4122 bytes, inside a buffer of two pages.
\<close>

definition wide_leaf :: BNode where
  "wide_leaf =
     [2, 0, 8, 0] @ replicate 64 0
     @ [4, 0, 9, 0, 14, 0, 19, 0, 24, 0, 29, 0, 34, 0, 198, 15]
     @ [0, 0, 0, 0] @ [1, 0, 0, 0, 97] @ [1, 0, 0, 0, 98] @ [1, 0, 0, 0, 99]
     @ [1, 0, 0, 0, 100] @ [1, 0, 0, 0, 101] @ [1, 0, 0, 0, 102]
     @ [232, 3, 184, 11] @ big_key @ big_val @ replicate 4070 0"

text \<open>Two leaves of one page each: the first holds the empty key and \<open>a\<close>, the second \<open>b\<close>.\<close>

definition leaf_left :: BNode where
  "leaf_left =
     [2, 0, 2, 0] @ replicate 16 0 @ [4, 0, 9, 0] @ [0, 0, 0, 0] @ [1, 0, 0, 0, 97]
     @ replicate 4063 0"

definition leaf_right :: BNode where
  "leaf_right =
     [2, 0, 1, 0] @ replicate 8 0 @ [5, 0] @ [1, 0, 0, 0, 98] @ replicate 4077 0"

text \<open>
  A file of one page whose master page has the signature, root 0, one page in use and the
  free-list head 16384, the first page number beyond the initial mapping of 64 MiB.
  \<open>masterLoad\<close> accepts it: it does not check the free-list head.
\<close>

definition stray_file :: bytes where
  "stray_file =
     [84, 73, 78, 89, 68, 66, 95, 83, 73, 71] @ replicate 6 0
     @ [0, 0, 0, 0, 0, 0, 0, 0] @ [1, 0, 0, 0, 0, 0, 0, 0] @ [0, 64, 0, 0, 0, 0, 0, 0]
     @ replicate 4056 0"

section \<open>Evaluation\<close>

lemmas codec_defs = make_bytes_def assert_def slice_from_def slice_to_def slice_def
  Uint16_def Uint64_def bytes_u16_def bytes_u64_def put_at_def PutUint16_def PutUint64_def
  copy_at_def btype_def nkeys_def setHeader_def getPtr_def setPtr_def offsetPos_def
  getOffset_def setOffset_def kvPos_def getKey_def getVal_def nbytes_def
  BTREE_PAGE_SIZE_def BTREE_PAGE_MAX_KEY_SIZE_def BTREE_PAGE_MAX_VALUE_SIZE_def HEADER_def
  BNODE_NODE_def BNODE_LEAF_def BNODE_FREE_LIST_def FREE_LIST_HEADER_def FREE_LIST_CAP_def

lemmas node_defs = nodeLookupLE_def nodeAppendRange_def nodeAppendKV_def leafInsert_def
  leafUpdate_def leafDelete_def nodeSplit2_def nodeSplit3_def nodeMerge_def

lemmas fl_defs = flnSize_def flnNext_def flnPtr_def flnSetPtr_def flnSetHeader_def
  flnSetTotal_def Total_def Get_def move_rest_def fill_node_def Update_def Get_loop.simps
  drain.simps

lemmas tree_defs = nodeReplaceKidN_def nodeReplaceKid2_def Insert_def shouldMerge_def
  Delete_def BTree_Get_def treeInsert.simps treeDelete.simps treeGet.simps

lemmas kv_defs = syscall_def quot_def pageGetMapped_def pageGet_def pageUse_def pageDel_def
  pageAppend_def pagePut_def db_free_def pageNew_def db_tree_def extendFile_def
  extendMmap_def DB_SIG_def materStore_def syncPages_def writePages_def flushPages_def
  KV_Get_def KV_Set_def KV_Delete_def masterLoad_def Open_def

lemmas input_defs = db_empty_def small_sets_def big_key_def big_key2_def big_val_def

lemma le_nat_replicate0 [simp]: "le_nat (replicate n 0) = 0"
  by (induction n) auto

lemma bind_weak_cong: "m = m' \<Longrightarrow> Option.bind m f = Option.bind m' f"
  by simp

lemma bytes_compare_Nil_replicate:
  "bytes_compare [] (replicate n y) = (if n = 0 then 0 else - 1)"
  by (cases n) auto

lemma bytes_compare_replicate_Nil:
  "bytes_compare (replicate n x) [] = (if n = 0 then 0 else 1)"
  by (cases n) auto

lemma bytes_compare_Cons_replicate:
  "bytes_compare (x # xs) (replicate n y) =
     (if n = 0 then 1 else if x < y then - 1 else if y < x then 1
      else bytes_compare xs (replicate (n - 1) y))"
  by (cases n) auto

lemma bytes_compare_replicate_Cons:
  "bytes_compare (replicate n x) (y # ys) =
     (if n = 0 then - 1 else if x < y then - 1 else if y < x then 1
      else bytes_compare (replicate (n - 1) x) ys)"
  by (cases n) auto

lemma bytes_compare_same: "bytes_compare xs xs = 0"
  by (induction xs) auto

lemma replicate_eq_Cons_iff:
  "(replicate n x = y # ys) = (n \<noteq> 0 \<and> x = y \<and> replicate (n - 1) x = ys)"
  by (cases n) auto

lemma Cons_eq_replicate_iff:
  "(y # ys = replicate n x) = (n \<noteq> 0 \<and> x = y \<and> replicate (n - 1) x = ys)"
  by (cases n) auto

lemma bytes_compare_replicate_replicate:
  "x \<noteq> y \<Longrightarrow> 0 < n \<Longrightarrow> 0 < m \<Longrightarrow>
   bytes_compare (replicate n x) (replicate m y) = (if x < y then - 1 else 1)"
  by (cases n; cases m) auto

lemmas bytes_simps = bytes_compare_Nil_replicate bytes_compare_replicate_Nil
  bytes_compare_Cons_replicate bytes_compare_replicate_Cons bytes_compare_same
  bytes_compare_replicate_replicate replicate_eq_Cons_iff Cons_eq_replicate_iff upt_rec

lemma Open_empty: "Open [] [] = Some (Inr db_empty)"
  by (simp add: Open_def masterLoad_def pageAppend_def pageUse_def db_empty_def codec_defs)

lemmas ev = input_defs codec_defs node_defs fl_defs tree_defs kv_defs bytes_simps

subsection \<open>Runs of the store\<close>

text \<open>
  After \<open>Set\<close> of \<open>a\<close> .. \<open>f\<close> the six keys are in the root leaf. Adding \<open>big_key\<close>
  returns without error, but the root becomes an internal node over three leaves with the
  routing keys \<open>""\<close>, \<open>""\<close>, \<open>""\<close>: the first leaf announces all 8 entries in 4122 bytes
  and the value of its last entry, \<open>big_key\<close>, is cut off at the end of the page; the
  other two leaves have no entry. Every lookup descends to the third leaf.
\<close>

lemma run_small:
  "(case run_sets db_empty small_sets of
      Some db \<Rightarrow> KV_Get db [97] = Some ([], True) \<and> KV_Get db big_key = Some ([], False)
                 \<and> pageGet db (tree_root db) = Some small_leaf
    | None \<Rightarrow> False)"
  by (simp add: small_leaf_def ev cong: bind_weak_cong option.case_cong_weak)

lemma wide_leaf_built:
  "nodeLookupLE small_leaf big_key = Some 6
   \<and> leafInsert (make_bytes (2 * BTREE_PAGE_SIZE)) small_leaf 7 big_key big_val = Some wide_leaf"
  by (simp add: small_leaf_def wide_leaf_def input_defs codec_defs node_defs bytes_simps
           cong: bind_weak_cong option.case_cong_weak)

lemma run_small_big:
  "(case run_sets db_empty (small_sets @ [(big_key, big_val)]) of
      Some db \<Rightarrow>
        KV_Get db big_key = Some ([], False) \<and> KV_Get db [97] = Some ([], False)
        \<and> (case pageGet db (tree_root db) of
              Some r \<Rightarrow>
                btype r = Some BNODE_NODE \<and> nkeys r = Some 3
                \<and> getKey r 0 = Some [] \<and> getKey r 1 = Some [] \<and> getKey r 2 = Some []
                \<and> (case (getPtr r 0, getPtr r 1, getPtr r 2) of
                      (Some p0, Some p1, Some p2) \<Rightarrow>
                        (case (pageGet db p0, pageGet db p1, pageGet db p2) of
                           (Some k0, Some k1, Some k2) \<Rightarrow>
                             nkeys k0 = Some 8 \<and> nbytes k0 = Some 4122
                             \<and> length k0 = BTREE_PAGE_SIZE \<and> getKey k0 7 = Some big_key
                             \<and> nkeys k1 = Some 0 \<and> nkeys k2 = Some 0
                         | _ \<Rightarrow> False)
                    | _ \<Rightarrow> False)
            | None \<Rightarrow> False)
    | None \<Rightarrow> False)"
  by (simp add: ev cong: bind_weak_cong option.case_cong_weak)

text \<open>
  With two keys of 1000 bytes and values of 3000 bytes, the first \<open>Set\<close> succeeds and the
  second splits the root leaf in two. \<open>Insert\<close> then runs its loop over all three slots
  of the array that \<open>nodeSplit3\<close> returned; the third is the zero \<open>BNode\<close>, and
  \<open>getKey(0)\<close> on its nil data panics.
\<close>

lemma run_two_big:
  "(case run_sets db_empty [(big_key, big_val)] of
      Some db \<Rightarrow> KV_Get db big_key = Some (big_val, True)
                 \<and> Insert (db_tree db) big_key2 big_val db = None
    | None \<Rightarrow> False)"
  by (simp add: ev cong: bind_weak_cong option.case_cong_weak)

subsection \<open>What \<open>syncPages\<close> does in every commit\<close>

lemma materStore_cases:
  "materStore db = Some (e, db') \<Longrightarrow>
     flushed db' = flushed db \<and> updates db' = updates db \<and> nfree db' = nfree db
     \<and> nappend db' = nappend db \<and> trace db' = trace db @ [EvMasterWrite]"
  by (auto simp: materStore_def syscall_def split: Option.bind_splits list.splits bool.splits)

text \<open>
  A successful \<open>syncPages\<close> writes the master page and then issues one fsync, adds the
  number of non-nil images to \<open>flushed\<close>, empties \<open>updates\<close> and keeps both counters.
\<close>

lemma syncPages_every_commit:
  assumes "syncPages db = Some (None, db')"
  shows "trace db' = trace db @ [EvMasterWrite, EvFsync]"
    and "flushed db' =
           flushed db + of_nat (length (filter (\<lambda>(ptr, page). page \<noteq> []) (updates db)))"
    and "updates db' = []" and "nfree db' = nfree db" and "nappend db' = nappend db"
  using assms
  by (auto simp: syncPages_def syscall_def Let_def dest!: materStore_cases
           split: option.splits list.splits bool.splits if_splits prod.splits
                  Option.bind_splits)

subsection \<open>The walk over the chunks\<close>

lemma unat_pages:
  assumes "length (chunk :: bytes) < 2 ^ 64"
  shows "unat ((of_nat (length chunk) :: u64) div of_nat BTREE_PAGE_SIZE) = length chunk div 4096"
proof -
  have "unat (of_nat (length chunk) :: u64) = length chunk"
    using assms by (simp add: unat_of_nat)
  moreover have "unat (of_nat BTREE_PAGE_SIZE :: u64) = 4096"
    by (simp add: BTREE_PAGE_SIZE_def)
  ultimately show ?thesis
    by (simp add: unat_div)
qed

text \<open>
  When every chunk is a whole number of pages and the page numbers do not overflow, the
  walk finds page \<open>ptr\<close> at its place in the concatenation of the chunks.
\<close>

lemma pageGetMapped_loop_concat:
  assumes "\<forall>c \<in> set cs. length c mod 4096 = 0"
      and "4096 * unat start + length (concat cs) < 2 ^ 64"
      and "start \<le> ptr"
      and "unat ptr < unat start + length (concat cs) div 4096"
  shows "pageGetMapped_loop cs start ptr =
           Some (take 4096 (drop (4096 * (unat ptr - unat start)) (concat cs)))"
  using assms
proof (induction cs arbitrary: start)
  case Nil
  then show ?case by (simp add: word_le_nat_alt)
next
  case (Cons chunk cs)
  define k where "k = length chunk div 4096"
  have len: "length chunk = 4096 * k"
    using Cons.prems(1) by (auto simp: k_def)
  have klt: "length chunk < 2 ^ 64"
    using Cons.prems(2) by simp
  have uk: "unat ((of_nat (length chunk) :: u64) div of_nat BTREE_PAGE_SIZE) = k"
    using unat_pages [OF klt] by (simp add: k_def)
  define e where "e = start + (of_nat (length chunk) :: u64) div of_nat BTREE_PAGE_SIZE"
  have ue: "unat e = unat start + k"
    unfolding e_def using uk Cons.prems(2) len
    by (simp add: unat_add_lem [THEN iffD1])
  show ?case
  proof (cases "ptr < e")
    case True
    define d where "d = unat ptr - unat start"
    have dk: "d < k"
      using True ue Cons.prems(3) by (simp add: d_def word_less_nat_alt word_le_nat_alt)
    have usub: "unat (ptr - start) = d"
      using Cons.prems(3) by (simp add: d_def unat_sub)
    have bound: "4096 * d + 4096 \<le> length chunk"
      using dk len by simp
    have uoff: "unat ((of_nat BTREE_PAGE_SIZE :: u64) * (ptr - start)) = 4096 * d"
    proof -
      have "unat (of_nat BTREE_PAGE_SIZE :: u64) * unat (ptr - start) < 2 ^ 64"
        using bound klt usub by (simp add: BTREE_PAGE_SIZE_def)
      then show ?thesis
        using usub by (simp add: unat_mult_lem [THEN iffD1] BTREE_PAGE_SIZE_def
                            del: right_diff_distrib_numeral)
    qed
    have uoff2: "unat ((of_nat BTREE_PAGE_SIZE :: u64) * (ptr - start) + of_nat BTREE_PAGE_SIZE)
                   = 4096 * d + 4096"
    proof -
      have "unat ((of_nat BTREE_PAGE_SIZE :: u64) * (ptr - start))
              + unat (of_nat BTREE_PAGE_SIZE :: u64) < 2 ^ 64"
        using bound klt uoff by (simp add: BTREE_PAGE_SIZE_def del: right_diff_distrib_numeral)
      then show ?thesis
        using uoff by (simp add: unat_add_lem [THEN iffD1] BTREE_PAGE_SIZE_def
                            del: right_diff_distrib_numeral)
    qed
    have "pageGetMapped_loop (chunk # cs) start ptr = Some (take 4096 (drop (4096 * d) chunk))"
      using True bound uoff uoff2
      by (simp add: e_def [symmetric] Let_def slice_def del: right_diff_distrib_numeral)
    moreover have "take 4096 (drop (4096 * d) (concat (chunk # cs)))
                     = take 4096 (drop (4096 * d) chunk)"
      using bound by simp
    ultimately show ?thesis by (simp add: d_def)
  next
    case False
    then have ge: "e \<le> ptr" by simp
    have p1: "\<forall>c \<in> set cs. length c mod 4096 = 0" using Cons.prems(1) by simp
    have p2: "4096 * unat e + length (concat cs) < 2 ^ 64"
      using Cons.prems(2) len ue by simp
    have p4: "unat ptr < unat e + length (concat cs) div 4096"
      using Cons.prems(4) len ue by simp
    have ih: "pageGetMapped_loop cs e ptr
                = Some (take 4096 (drop (4096 * (unat ptr - unat e)) (concat cs)))"
      by (rule Cons.IH [OF p1 p2 ge p4])
    have uge: "unat start + k \<le> unat ptr"
      using ge ue by (simp add: word_le_nat_alt)
    have "4096 * (unat ptr - unat start) - length chunk = 4096 * (unat ptr - unat e)"
      using uge ue len by simp
    moreover have "length chunk \<le> 4096 * (unat ptr - unat start)"
      using uge len by simp
    ultimately have "drop (4096 * (unat ptr - unat start)) (concat (chunk # cs))
                       = drop (4096 * (unat ptr - unat e)) (concat cs)"
      by simp
    then show ?thesis
      using False ih by (simp add: e_def [symmetric] Let_def)
  qed
qed

section \<open>Claims about the node operations\<close>

text \<open>
  C5. The claim: for sibling nodes whose combined size fits in one page, \<open>nodeMerge\<close>
  produces a node with the type of the left node and \<open>left.nkeys() + right.nkeys()\<close>
  keys. The code writes \<open>left.nkeys() + right.btype()\<close> into the header. For the leaf with
  the keys \<open>""\<close>, \<open>a\<close> (33 bytes) and the leaf with the key \<open>b\<close> (19 bytes) the merged
  node announces 4 keys instead of 3; its fourth key is read from the zero padding.
\<close>

theorem nodeMerge_key_count:
  "nbytes leaf_left = Some 33 \<and> nbytes leaf_right = Some 19
   \<and> nkeys leaf_left = Some 2 \<and> nkeys leaf_right = Some 1
   \<and> (case nodeMerge (make_bytes BTREE_PAGE_SIZE) leaf_left leaf_right of
         Some merged \<Rightarrow> btype merged = Some BNODE_LEAF \<and> nkeys merged = Some 4
                        \<and> getKey merged 2 = Some [98] \<and> getKey merged 3 = Some []
       | None \<Rightarrow> False)"
  by (simp add: leaf_left_def leaf_right_def codec_defs node_defs bytes_simps
           cong: bind_weak_cong option.case_cong_weak)

text \<open>
  C6. The claim: for a node of at most two pages whose entries each fit in one page,
  \<open>nodeSplit3\<close> returns one to three nodes of at most one page each that hold the entries
  of the input in order, cutting at the largest \<open>rightCount\<close> whose right page fits.
  \<open>nodeSplit2\<close> adds the header and the pointer and offset arrays of the whole old node to
  its estimate of the right page. For \<open>wide_leaf\<close> (8 entries, 4122 bytes, the last entry
  of 4004 bytes) the estimate for \<open>rightCount = 1\<close> is 4102, so nothing is moved to the
  right, twice: the first result still announces 4122 bytes in a buffer of 4096, its last
  value is cut off, and the other two results are empty. A right page with the last entry
  alone has 4018 bytes and would fit.
\<close>

theorem nodeSplit3_wide_leaf:
  "length wide_leaf = 2 * BTREE_PAGE_SIZE \<and> nbytes wide_leaf = Some 4122
   \<and> nkeys wide_leaf = Some 8 \<and> getVal wide_leaf 7 = Some big_val
   \<and> (case setHeader (make_bytes BTREE_PAGE_SIZE) BNODE_LEAF 1 of
         Some h \<Rightarrow>
           (case nodeAppendRange h wide_leaf 0 7 1 of
              Some r \<Rightarrow> nbytes r = Some 4018 \<and> getVal r 0 = Some big_val
            | None \<Rightarrow> False)
       | None \<Rightarrow> False)
   \<and> (case nodeSplit3 wide_leaf of
         Some (n, [leftleft, middle, right]) \<Rightarrow>
           n = 3 \<and> length leftleft = BTREE_PAGE_SIZE \<and> nkeys leftleft = Some 8
           \<and> nbytes leftleft = Some 4122 \<and> getVal leftleft 7 = None
           \<and> nkeys middle = Some 0 \<and> nkeys right = Some 0
       | _ \<Rightarrow> False)"
  by (simp add: input_defs wide_leaf_def codec_defs node_defs bytes_simps
           cong: bind_weak_cong option.case_cong_weak)

section \<open>Claims about the tree\<close>

text \<open>
  C1. The claim: after a successful \<open>Set(k, v)\<close>, \<open>Get(k)\<close> in the same process returns
  \<open>(v, true)\<close>. In a new store, after \<open>Set\<close> of the keys \<open>a\<close> .. \<open>f\<close> (after which
  \<open>Get(a)\<close> finds \<open>a\<close>), \<open>Set(big_key, big_val)\<close> returns without error and
  \<open>Get(big_key)\<close> then reports the key as absent; \<open>a\<close> is no longer found either. The
  leaf under the first pointer of the root, the only page that holds \<open>big_key\<close>, announces
  4122 bytes in its page of 4096: the last 26 bytes of the value were never stored.
\<close>

theorem Set_then_Get_not_found:
  "(case run_sets db_empty small_sets of
      Some db \<Rightarrow> KV_Get db [97] = Some ([], True)
    | None \<Rightarrow> False)
   \<and> (case run_sets db_empty (small_sets @ [(big_key, big_val)]) of
         Some db \<Rightarrow>
           KV_Get db big_key = Some ([], False) \<and> KV_Get db [97] = Some ([], False)
           \<and> (case pageGet db (tree_root db) of
                 Some r \<Rightarrow>
                   (case getPtr r 0 of
                      Some p0 \<Rightarrow>
                        (case pageGet db p0 of
                           Some k0 \<Rightarrow> getKey k0 7 = Some big_key \<and> nbytes k0 = Some 4122
                                      \<and> length k0 = BTREE_PAGE_SIZE
                         | None \<Rightarrow> False)
                    | None \<Rightarrow> False)
               | None \<Rightarrow> False)
       | None \<Rightarrow> False)"
  using run_small run_small_big by (auto split: option.splits)

text \<open>
  C7. The claim: after every sequence of \<open>Insert\<close> and \<open>Delete\<close> from the empty tree,
  every internal node has the smallest key of its subtree as its first key, and the
  routing key of each child is the first key of that child. First, a sequence can fail
  to end in a tree at all: after \<open>Insert(big_key, big_val)\<close> the call
  \<open>Insert(big_key2, big_val)\<close>, which splits the root leaf in two, aborts. Second, when
  the root splits in three as in C1, the root routes to two leaves that have no key: the
  routing key \<open>""\<close> stored for them is not the first key of any entry.
\<close>

theorem Insert_root_split:
  "(case run_sets db_empty [(big_key, big_val)] of
      Some db \<Rightarrow> Insert (db_tree db) big_key2 big_val db = None
    | None \<Rightarrow> False)
   \<and> (case run_sets db_empty (small_sets @ [(big_key, big_val)]) of
         Some db \<Rightarrow>
           (case pageGet db (tree_root db) of
              Some r \<Rightarrow>
                btype r = Some BNODE_NODE \<and> nkeys r = Some 3
                \<and> getKey r 1 = Some [] \<and> getKey r 2 = Some []
                \<and> (case (getPtr r 0, getPtr r 1, getPtr r 2) of
                      (Some p0, Some p1, Some p2) \<Rightarrow>
                        (case (pageGet db p0, pageGet db p1, pageGet db p2) of
                           (Some k0, Some k1, Some k2) \<Rightarrow>
                             nkeys k1 = Some 0 \<and> nkeys k2 = Some 0
                         | _ \<Rightarrow> False)
                    | _ \<Rightarrow> False)
            | None \<Rightarrow> False)
       | None \<Rightarrow> False)"
  using run_two_big run_small_big
  by (auto split: option.splits)

section \<open>Claims about the pager\<close>

text \<open>
  C2. The claim: every commit increases the persisted page count \<open>flushed\<close> by exactly
  the number of pages appended in that commit; reused pages do not increase it.
  \<open>syncPages\<close> adds the number of all non-nil images in \<open>updates\<close>. In the third \<open>Set\<close>
  on a new store both images (the new root and the new free-list node) go to the reused
  pages 1 and 2, no page is appended (\<open>nappend\<close> stays 4), and \<open>flushed\<close> goes from 5
  to 7.
\<close>

theorem commit_counts_reused_pages:
  "(case run_sets db_empty [([97], []), ([98], [])] of
      Some db2 \<Rightarrow>
        (case KV_Set db2 [99] [] of
           Some (None, db3) \<Rightarrow>
             flushed db2 = 5 \<and> nappend db2 = 4 \<and> nappend db3 = 4
             \<and> drop (length (trace db2)) (trace db3) =
                 [EvFallocate, EvPageWrite 1, EvPageWrite 2, EvMasterWrite, EvFsync]
             \<and> flushed db3 = 7
         | _ \<Rightarrow> False)
    | None \<Rightarrow> False)"
  by (simp add: ev cong: bind_weak_cong option.case_cong_weak)

text \<open>
  C3. The claim: in every commit a data fsync is issued after the page images are written
  and before the master page is rewritten, and a second fsync after the master write.
  The first \<open>Set\<close> on a new store writes pages 1 and 2, then the master page, then issues
  its only fsync. The \<open>syncPages\<close> of \<open>kv.go\<close> does issue both.
\<close>

theorem commit_trace:
  "(case KV_Set db_empty [97] [49, 49, 49, 49] of
      Some (None, db) \<Rightarrow>
        trace db = [EvFallocate, EvPageWrite 1, EvPageWrite 2, EvMasterWrite, EvFsync]
    | _ \<Rightarrow> False)
   \<and> syncPages0 \<lparr>flushed0 = 1, temp = [make_bytes BTREE_PAGE_SIZE], trace0 = [], io0 = []\<rparr>
       = (None, \<lparr>flushed0 = 2, temp = [], trace0 = [EvFsync, EvMasterWrite, EvFsync],
                 io0 = []\<rparr>)"
  by (simp add: syncPages0_def syscall0_def ev cong: bind_weak_cong option.case_cong_weak)

text \<open>
  C4. The claim: after every successful commit \<open>updates\<close> is empty and \<open>nfree\<close> and
  \<open>nappend\<close> are 0. \<open>syncPages\<close> empties \<open>updates\<close> and leaves the two counters as they
  are: after the first \<open>Set\<close> on a new store \<open>nappend\<close> is 2, after the third \<open>nfree\<close>
  is 1 and \<open>nappend\<close> is 4.
\<close>

theorem commit_keeps_counters:
  "(case KV_Set db_empty [97] [49, 49, 49, 49] of
      Some (None, db1) \<Rightarrow> updates db1 = [] \<and> nfree db1 = 0 \<and> nappend db1 = 2
    | _ \<Rightarrow> False)
   \<and> (case run_sets db_empty [([97], []), ([98], []), ([99], [])] of
         Some db3 \<Rightarrow> updates db3 = [] \<and> nfree db3 = 1 \<and> nappend db3 = 4
       | None \<Rightarrow> False)"
  by (simp add: ev cong: bind_weak_cong option.case_cong_weak)

text \<open>
  C9. The claim: for a page number in the mapped range, \<open>pageGet\<close> returns the pending
  image when \<open>updates\<close> has a non-nil entry, and otherwise, also for a nil tombstone, the
  page from the mapping. The code returns the entry of \<open>updates\<close> whenever there is one:
  for a tombstone that is the node with nil data. After the first \<open>Set\<close> and
  \<open>pageDel(2)\<close> of the root, \<open>pageGet(2)\<close> is the nil node, not the committed leaf.
\<close>

theorem pageGet_tombstone_counterexample:
  "(case KV_Set db_empty [97] [49, 49, 49, 49] of
      Some (None, db) \<Rightarrow>
        tree_root db = 2
        \<and> pageGetMapped (pageDel 2 db) 2 =
            Some ([2, 0, 2, 0] @ replicate 16 0
                  @ [4, 0, 13, 0, 0, 0, 0, 0, 1, 0, 4, 0, 97, 49, 49, 49, 49]
                  @ replicate 4059 0)
        \<and> pageGet (pageDel 2 db) 2 = Some []
    | _ \<Rightarrow> False)"
  by (simp add: ev cong: bind_weak_cong option.case_cong_weak)

text \<open>
  C9, as amended: when the chunks are whole pages and \<open>p\<close> lies in the mapped range,
  \<open>pageGet(p)\<close> returns the entry of \<open>updates\<close> for \<open>p\<close> when there is one (the pending
  image, or the nil image of a tombstone), and only when there is none the page of the
  mapping, which is the 4096 bytes at offset \<open>4096 * p\<close> of the chunks laid end to end.
\<close>

theorem pageGet_amended:
  assumes "\<forall>c \<in> set (chunks db). length c mod BTREE_PAGE_SIZE = 0"
      and "length (concat (chunks db)) < 2 ^ 64"
      and "unat p < length (concat (chunks db)) div BTREE_PAGE_SIZE"
  shows "pageGet db p =
           (case map_of (updates db) p of
              Some page \<Rightarrow> Some page
            | None \<Rightarrow> Some (take BTREE_PAGE_SIZE
                               (drop (BTREE_PAGE_SIZE * unat p) (concat (chunks db)))))"
proof -
  have "pageGetMapped_loop (chunks db) 0 p =
          Some (take 4096 (drop (4096 * (unat p - unat (0 :: u64))) (concat (chunks db))))"
    using assms by (intro pageGetMapped_loop_concat) (simp_all add: BTREE_PAGE_SIZE_def)
  then show ?thesis
    by (simp add: pageGet_def pageGetMapped_def BTREE_PAGE_SIZE_def split: option.splits)
qed

theorem pageGet_amended_witness:
  "pageGet (pageDel 5 db_empty) 5 = Some []
   \<and> pageGet (pageDel 5 db_empty) 1 = Some (replicate 4096 0)
   \<and> pageGet (pageDel 5 db_empty) 3 = Some (replicate 4096 0)"
proof -
  let ?db = "pageDel 5 db_empty"
  have h1: "\<forall>c \<in> set (chunks ?db). length c mod BTREE_PAGE_SIZE = 0"
    by (simp add: pageDel_def db_empty_def BTREE_PAGE_SIZE_def)
  have h2: "length (concat (chunks ?db)) < 2 ^ 64"
    by (simp add: pageDel_def db_empty_def)
  have h3: "unat (p :: u64) < length (concat (chunks ?db)) div BTREE_PAGE_SIZE"
    if "p = 5 \<or> p = 1 \<or> p = 3" for p
    using that by (auto simp: pageDel_def db_empty_def BTREE_PAGE_SIZE_def)
  show ?thesis
    using pageGet_amended [OF h1 h2 h3, of 5] pageGet_amended [OF h1 h2 h3, of 1]
      pageGet_amended [OF h1 h2 h3, of 3]
    by (simp add: pageDel_def db_empty_def BTREE_PAGE_SIZE_def)
qed

section \<open>Claims about the free list\<close>

text \<open>
  C8. The claim: after \<open>Update(popn, freed)\<close>, \<open>Total()\<close> counts the pointers stored in
  the chain, and the \<open>popn\<close> popped pointers are no longer counted as reusable. The loop
  of \<open>Update\<close> runs only while \<open>len(reuse) * FREE_LIST_CAP < len(freed)\<close>, so with an empty
  \<open>freed\<close> nothing is removed. After two \<open>Set\<close>s the free list holds pages 2 and 1;
  \<open>pageNew\<close> hands out page 1 (\<open>nfree = 1\<close>), and after \<open>Update(1, [])\<close> the list still
  has \<open>Total() = 2\<close> and still offers page 1 first.
\<close>

theorem Update_keeps_popped:
  "(case run_sets db_empty [([97], []), ([98], [])] of
      Some db2 \<Rightarrow>
        Total (db_free db2) db2 = Some 2 \<and> nfree db2 = 0
        \<and> (case pageNew (make_bytes BTREE_PAGE_SIZE) db2 of
              Some (p, db) \<Rightarrow>
                p = 1 \<and> nfree db = 1
                \<and> (case Update (db_free db) (nfree db) [] db of
                      Some (fl, db') \<Rightarrow>
                        head fl = 6 \<and> Total fl db' = Some 2 \<and> Get fl db' 0 = Some 1
                        \<and> Get fl db' 1 = Some 2
                    | None \<Rightarrow> False)
            | None \<Rightarrow> False)
    | None \<Rightarrow> False)"
  by (simp add: ev cong: bind_weak_cong option.case_cong_weak)

text \<open>
  C10. The claim: \<open>Update(0, [])\<close> returns at once without calling \<open>get\<close>, \<open>new\<close> or
  \<open>use\<close>, and leaves the free list unchanged. The assertion at the head of \<open>Update\<close>
  evaluates \<open>fl.Total()\<close>, which calls \<open>get\<close> on the head page. On the store opened from
  \<open>stray_file\<close> that read is out of the mapped range and \<open>Update(0, [])\<close> aborts.
\<close>

theorem Update_nothing_counterexample:
  "(case Open stray_file [] of
      Some (Inr db) \<Rightarrow> free_head db = 16384 \<and> updates db = []
                        \<and> Update (db_free db) 0 [] db = None
    | _ \<Rightarrow> False)"
  by (simp add: stray_file_def ev cong: bind_weak_cong option.case_cong_weak)

text \<open>
  C10, as amended: \<open>Update(0, [])\<close> reads the total of the head node through \<open>get\<close>, and
  aborts when that read does; when the read succeeds it returns with the head and the
  page store unchanged, having called neither \<open>new\<close> nor \<open>use\<close>.
\<close>

theorem Update_nothing:
  "Update fl 0 [] s = (case Total fl s of None \<Rightarrow> None | Some t \<Rightarrow> Some (fl, s))"
  by (simp add: Update_def assert_def split: option.splits)

end
